theory Spec2Isabelle
  imports Main
begin

section \<open>Qt text primitives used by the statement builder\<close>

text \<open>
  The statement builder of \<^verbatim>\<open>dqsqlstatement.cpp\<close> is written with three operations of
  the Qt string classes: \<^verbatim>\<open>QString::arg\<close>, \<^verbatim>\<open>QStringList::join\<close> and the pair
  \<^verbatim>\<open>QStringList::indexOf\<close> / \<^verbatim>\<open>removeAt\<close>. They belong to the Qt library, so they are
  modelled here from Qt's documented behaviour. A \<^verbatim>\<open>QString\<close> is a \<^typ>\<open>string\<close>, a list
  of 8-bit characters.
\<close>

subsection \<open>Place markers\<close>

text \<open>
  A place marker is \<^verbatim>\<open>%\<close>, an optional \<^verbatim>\<open>L\<close>, and one or two decimal digits.
  \<open>getEscape\<close> reads the text that follows a \<^verbatim>\<open>%\<close> and returns the marker's number
  and how many characters the marker takes after the \<^verbatim>\<open>%\<close>.
\<close>

definition digitValue :: "char \<Rightarrow> nat option" where
  "digitValue c =
     (let n = (of_char c :: nat) in if 48 \<le> n \<and> n \<le> 57 then Some (n - 48) else None)"

definition getEscape :: "string \<Rightarrow> (nat \<times> nat) option" where
  "getEscape s =
     (let k = (case s of [] \<Rightarrow> 0 | c # r \<Rightarrow> if c = CHR ''L'' then 1 else (0::nat)) in
      case drop k s of
        [] \<Rightarrow> None
      | c # r \<Rightarrow>
         (case digitValue c of
            None \<Rightarrow> None
          | Some a \<Rightarrow>
             (case r of
                [] \<Rightarrow> Some (a, k + 1)
              | c2 # r2 \<Rightarrow>
                 (case digitValue c2 of
                    None \<Rightarrow> Some (a, k + 1)
                  | Some b \<Rightarrow> Some (10 * a + b, k + 2)))))"

datatype token = Chr char | Marker nat string

fun tokens :: "string \<Rightarrow> token list" where
  "tokens [] = []"
| "tokens (c # s) =
     (if c = CHR ''%'' then
        (case getEscape s of
           None \<Rightarrow> Chr c # tokens s
         | Some (n, k) \<Rightarrow> Marker n (c # take k s) # tokens (drop k s))
      else Chr c # tokens s)"

fun lowest :: "token list \<Rightarrow> nat option" where
  "lowest [] = None"
| "lowest (Chr c # ts) = lowest ts"
| "lowest (Marker n txt # ts) =
     (case lowest ts of None \<Rightarrow> Some n | Some m \<Rightarrow> Some (min n m))"

fun replace :: "nat \<Rightarrow> string \<Rightarrow> token list \<Rightarrow> string" where
  "replace m a [] = []"
| "replace m a (Chr c # ts) = c # replace m a ts"
| "replace m a (Marker n txt # ts) = (if n = m then a else txt) @ replace m a ts"

text \<open>
  \<^verbatim>\<open>QString::arg(const QString &a)\<close>: every occurrence of the lowest-numbered place marker
  is replaced by \<open>a\<close>; a text without a marker is returned as it is. A chain
  \<^verbatim>\<open>.arg(a).arg(b)\<close> reads the result of the first call again, markers inside \<open>a\<close>
  included.
\<close>

definition arg :: "string \<Rightarrow> string \<Rightarrow> string" where
  "arg s a = (case lowest (tokens s) of None \<Rightarrow> s | Some m \<Rightarrow> replace m a (tokens s))"

text \<open>\<^verbatim>\<open>QString::arg(int a)\<close> substitutes the decimal numeral of \<open>a\<close>.\<close>

fun digits :: "nat \<Rightarrow> string" where
  "digits n =
     (if n < 10 then [char_of (48 + n)]
      else digits (n div 10) @ [char_of (48 + n mod 10)])"

declare digits.simps [simp del]

definition number :: "int \<Rightarrow> string" where
  "number i = (if i < 0 then CHR ''-'' # digits (nat (- i)) else digits (nat i))"

definition arg_int :: "string \<Rightarrow> int \<Rightarrow> string" where
  "arg_int s i = arg s (number i)"

subsection \<open>String lists\<close>

fun join :: "string list \<Rightarrow> string \<Rightarrow> string" where
  "join [] sep = []"
| "join [x] sep = x"
| "join (x # y # ys) sep = x @ sep @ join (y # ys) sep"

text \<open>\<^verbatim>\<open>indexOf\<close> is the position of the first occurrence, or \<open>-1\<close>.\<close>

fun indexOf :: "'a list \<Rightarrow> 'a \<Rightarrow> int" where
  "indexOf [] x = - 1"
| "indexOf (y # ys) x =
     (if y = x then 0 else (let i = indexOf ys x in if i < 0 then - 1 else i + 1))"

text \<open>\<^verbatim>\<open>removeAt\<close> does nothing when the index is out of range.\<close>

definition removeAt :: "'a list \<Rightarrow> int \<Rightarrow> 'a list" where
  "removeAt xs i =
     (if 0 \<le> i \<and> i < int (length xs) then take (nat i) xs @ drop (Suc (nat i)) xs else xs)"

section \<open>The statement builder (dqsqlstatement.cpp)\<close>

text \<open>
  The builder reads a model's metadata through \<^verbatim>\<open>DQModelMetaInfo*\<close> and a query through
  \<^verbatim>\<open>DQQueryRules\<close>. Both classes are declared outside the two source files; the records
  hold what the builder reads from them. The pointer to the metadata is taken to be
  valid, so the record stands for the object it points to.
\<close>

record DQModelMetaInfo =
  name :: string
  fieldNameList :: "string list"

record DQExpression =
  expr_isNull :: bool
  expr_string :: string

text \<open>
  Modelled from the spec: the declaration of \<^verbatim>\<open>DQQueryRules\<close> is not among the sources.
  The spec lists its readers as \<^verbatim>\<open>metaInfo\<close> (here \<open>rules_metaInfo\<close>), \<^verbatim>\<open>fields\<close> (here
  \<open>rules_fields\<close>), \<^verbatim>\<open>func\<close>, \<^verbatim>\<open>expression\<close>, \<^verbatim>\<open>limit\<close> and \<^verbatim>\<open>offset\<close>. The builder
  takes a \<^verbatim>\<open>DQAbstractQuery\<close> and converts it to the rules first; the model starts from
  the rules.
\<close>

record DQQueryRules =
  rules_metaInfo :: DQModelMetaInfo
  rules_fields :: "string list"
  func :: string
  expression :: DQExpression
  limit :: int
  offset :: int

definition dropTable :: "DQModelMetaInfo \<Rightarrow> string" where
  "dropTable info = arg ''drop table %1;'' (name info)"

text \<open>
  \<^verbatim>\<open>_insertInto\<close>: the four-argument \<^verbatim>\<open>QString::arg\<close> fills the markers of the constant
  format \<^verbatim>\<open>%4 INTO %1 (%2) values (%3);\<close> in one pass, \<^verbatim>\<open>%1\<close> to \<^verbatim>\<open>%4\<close> by the first to
  the fourth argument, and does not read the substituted texts again. \<open>placeholders\<close> is
  its loop over the fields, which appends \<^verbatim>\<open>":" + f\<close> to \<^verbatim>\<open>values\<close>.
\<close>

definition placeholders :: "string list \<Rightarrow> string list" where
  "placeholders fs = foldl (\<lambda>values f. values @ [CHR '':'' # f]) [] fs"

definition insertInto_aux :: "DQModelMetaInfo \<Rightarrow> string \<Rightarrow> string list \<Rightarrow> string" where
  "insertInto_aux info type fs =
     type @ '' INTO '' @ name info @ '' ('' @ join fs '','' @ '') values (''
       @ join (placeholders fs) '','' @ '');''"

definition insertInto :: "DQModelMetaInfo \<Rightarrow> bool \<Rightarrow> string" where
  "insertInto info with_id =
     (let fs = fieldNameList info;
          fs = (if \<not> with_id then
                  (let idx = indexOf fs ''id'' in if idx \<ge> 0 then removeAt fs idx else fs)
                else fs)
      in insertInto_aux info ''INSERT'' fs)"

definition replaceInto :: "DQModelMetaInfo \<Rightarrow> bool \<Rightarrow> string" where
  "replaceInto info with_id =
     (let fs = fieldNameList info;
          fs = (if \<not> with_id then
                  (let idx = indexOf fs ''id'' in if idx \<ge> 0 then removeAt fs idx else fs)
                else fs)
      in insertInto_aux info ''REPLACE'' fs)"

definition limitAndOffset :: "int \<Rightarrow> int \<Rightarrow> string" where
  "limitAndOffset lim off =
     join ([arg_int ''LIMIT %1'' lim]
           @ (if off > 0 then [arg_int ''OFFSET %1'' off] else [])) '' ''"

definition selectResultColumn :: "DQQueryRules \<Rightarrow> string" where
  "selectResultColumn rules =
     (let res = (if length (rules_fields rules) = 0 then ''*'' else join (rules_fields rules) '','')
      in if func rules \<noteq> [] then arg (arg ''%1(%2)'' (func rules)) res else res)"

definition selectCore :: "DQQueryRules \<Rightarrow> string" where
  "selectCore rules =
     join ([arg (arg (arg ''SELECT %1 %2 FROM %3'' ''ALL'') (selectResultColumn rules))
              (name (rules_metaInfo rules))]
           @ (if \<not> expr_isNull (expression rules)
              then [arg ''WHERE %1'' (expr_string (expression rules))] else [])) '' ''"

text \<open>
  \<^verbatim>\<open>select\<close> and \<^verbatim>\<open>deleteFrom\<close> call \<^verbatim>\<open>limitAndOffset(rules.limit())\<close> with one argument;
  the second parameter takes its default. Modelled from the spec: the header that
  declares the default is not among the sources, and the spec gives it as \<open>0\<close>.
\<close>

definition default_offset :: int where
  "default_offset = 0"

definition select :: "DQQueryRules \<Rightarrow> string" where
  "select rules =
     join ([selectCore rules]
           @ (if limit rules > 0 then [limitAndOffset (limit rules) default_offset] else [])
           @ ['';'']) '' ''"

definition deleteFrom :: "DQQueryRules \<Rightarrow> string" where
  "deleteFrom rules =
     join ([arg ''DELETE FROM %1'' (name (rules_metaInfo rules))]
           @ (if \<not> expr_isNull (expression rules)
              then [arg ''WHERE %1'' (expr_string (expression rules))] else [])
           @ (if limit rules > 0 then [limitAndOffset (limit rules) default_offset] else [])
           @ ['';'']) '' ''"

section \<open>Connections (dqconnection.cpp)\<close>

text \<open>
  A \<^verbatim>\<open>DQConnection\<close> is a handle: its only member \<^verbatim>\<open>d\<close> is an explicitly shared pointer
  to a \<^verbatim>\<open>DQConnectionPriv\<close>, and copies of a handle point to the same object. Pointers are
  natural numbers, \<open>0\<close> the null pointer, and the objects live in a store. A read through
  a null pointer, or through a pointer to an object that is not in the store, is an
  error of the model, where the program has no defined behaviour. A failed \<^verbatim>\<open>Q_ASSERT\<close>
  is an error too.
\<close>

datatype error = NullDereference | DanglingPointer | AssertionFailed

text \<open>
  \<^verbatim>\<open>QSqlDatabase\<close> and \<^verbatim>\<open>QSqlQuery\<close> are Qt classes; the model keeps what the connection
  observes of them. A default-constructed database handle is not open, a
  default-constructed query has no statement.
\<close>

record QSqlDatabase =
  db_isOpen :: bool
  connectionName :: string

definition QSqlDatabase_default :: QSqlDatabase where
  "QSqlDatabase_default = \<lparr>db_isOpen = False, connectionName = []\<rparr>"

datatype QSqlQuery = QSqlQuery (executedQuery: string)

definition QSqlQuery_default :: QSqlQuery where
  "QSqlQuery_default = QSqlQuery []"

text \<open>
  \<^verbatim>\<open>DQConnectionPriv\<close>: of the member \<^verbatim>\<open>m_sql\<close> the model keeps the database handle and
  whether a statement builder has been set; \<open>d_engine\<close> is the pointer \<^verbatim>\<open>d->engine\<close>.
  The mutex is left out: the model runs one call at a time, and no call locks twice.
\<close>

record DQConnectionPriv =
  d_sql_statement :: bool
  d_sql_database :: QSqlDatabase
  d_lastQuery :: QSqlQuery
  d_engine :: nat

text \<open>
  \<^verbatim>\<open>DQEngine\<close> is an abstract class, and its implementation \<^verbatim>\<open>DQSqliteEngine\<close> is not
  among the sources. The virtual functions the connection calls are parameters: an
  engine object has a state of type \<open>'e\<close>, and the record gives what each call returns
  and the state it leaves. \<open>sqlite_new\<close> is the state of \<^verbatim>\<open>new DQSqliteEngine()\<close>.
\<close>

record 'e DQEngine =
  sqlite_new :: 'e
  engine_open :: "QSqlDatabase \<Rightarrow> 'e \<Rightarrow> bool \<times> 'e"
  engine_close :: "'e \<Rightarrow> 'e"
  engine_isOpen :: "'e \<Rightarrow> bool"
  engine_addModel :: "nat \<Rightarrow> 'e \<Rightarrow> bool \<times> 'e"
  engine_modelList :: "'e \<Rightarrow> nat list"

text \<open>
  The state of the process: the store of \<^verbatim>\<open>DQConnectionPriv\<close> objects, the store of
  engine objects, the model metadata objects, the static \<^verbatim>\<open>mapping\<close> from a metadata
  pointer to the handle of its default connection, the lines written with
  \<^verbatim>\<open>qWarning\<close>, and the last address that \<^verbatim>\<open>new\<close> returned.
\<close>

record 'e world =
  privs :: "nat \<Rightarrow> DQConnectionPriv option"
  engines :: "nat \<Rightarrow> 'e option"
  metaInfos :: "nat \<Rightarrow> DQModelMetaInfo option"
  mapping :: "nat \<Rightarrow> nat option"
  warnings :: "string list"
  next_addr :: nat

definition new_priv :: "'e world \<Rightarrow> nat \<times> 'e world" where
  "new_priv w =
     (let a = next_addr w + 1 in
      (a, w\<lparr>privs := (privs w)(a \<mapsto>
               \<lparr>d_sql_statement = False, d_sql_database = QSqlDatabase_default,
                d_lastQuery = QSqlQuery_default, d_engine = 0\<rparr>),
            next_addr := a\<rparr>))"

definition new_engine :: "'e \<Rightarrow> 'e world \<Rightarrow> nat \<times> 'e world" where
  "new_engine e w =
     (let a = next_addr w + 1 in (a, w\<lparr>engines := (engines w)(a \<mapsto> e), next_addr := a\<rparr>))"

definition isNull :: "nat \<Rightarrow> bool" where
  "isNull d = (d = 0)"

definition isOpen :: "'e DQEngine \<Rightarrow> nat \<Rightarrow> 'e world \<Rightarrow> error + bool" where
  "isOpen E d w =
     (if d = 0 then Inr False
      else case privs w d of
        None \<Rightarrow> Inl DanglingPointer
      | Some p \<Rightarrow>
          if d_engine p = 0 then Inr False
          else (case engines w (d_engine p) of
                  None \<Rightarrow> Inl DanglingPointer
                | Some e \<Rightarrow> Inr (engine_isOpen E e)))"

definition setEngine ::
  "'e DQEngine \<Rightarrow> nat \<Rightarrow> nat \<Rightarrow> 'e world \<Rightarrow> error + (bool \<times> 'e world)" where
  "setEngine E engine d w =
     (case isOpen E d w of
        Inl x \<Rightarrow> Inl x
      | Inr True \<Rightarrow> Inr (False, w)
      | Inr False \<Rightarrow>
          if d = 0 then Inl NullDereference
          else (case privs w d of
                  None \<Rightarrow> Inl DanglingPointer
                | Some p \<Rightarrow>
                    let w1 = (if d_engine p \<noteq> 0
                              then w\<lparr>engines := (engines w)(d_engine p := None)\<rparr> else w)
                    in Inr (True, w1\<lparr>privs := (privs w1)(d \<mapsto> p\<lparr>d_engine := engine\<rparr>)\<rparr>)))"

text \<open>The macro \<^verbatim>\<open>PREPARE_PRIV\<close>; it may assign \<^verbatim>\<open>d\<close>, so it returns the handle.\<close>

definition PREPARE_PRIV :: "'e DQEngine \<Rightarrow> nat \<Rightarrow> 'e world \<Rightarrow> error + (nat \<times> 'e world)" where
  "PREPARE_PRIV E d w =
     (let (d1, w1) = (if isNull d then new_priv w else (d, w)) in
      case privs w1 d1 of
        None \<Rightarrow> Inl DanglingPointer
      | Some p \<Rightarrow>
          if d_engine p = 0 then
            (let (e, w2) = new_engine (sqlite_new E) w1 in
             case setEngine E e d1 w2 of
               Inl x \<Rightarrow> Inl x
             | Inr (r, w3) \<Rightarrow> Inr (d1, w3))
          else Inr (d1, w1))"

definition "open" ::
  "'e DQEngine \<Rightarrow> QSqlDatabase \<Rightarrow> nat \<Rightarrow> 'e world \<Rightarrow> error + (bool \<times> nat \<times> 'e world)" where
  "open E db d w =
     (if \<not> db_isOpen db then Inl AssertionFailed
      else case PREPARE_PRIV E d w of
        Inl x \<Rightarrow> Inl x
      | Inr (d1, w1) \<Rightarrow>
         (case privs w1 d1 of
            None \<Rightarrow> Inl DanglingPointer
          | Some p \<Rightarrow>
              let w2 = w1\<lparr>privs := (privs w1)(d1 \<mapsto>
                            p\<lparr>d_sql_statement := True, d_sql_database := db\<rparr>)\<rparr>
              in if d_engine p = 0 then Inl NullDereference
                 else (case engines w2 (d_engine p) of
                         None \<Rightarrow> Inl DanglingPointer
                       | Some e \<Rightarrow>
                           Inr (True, d1,
                                w2\<lparr>engines :=
                                     (engines w2)(d_engine p \<mapsto> snd (engine_open E db e))\<rparr>))))"

text \<open>The loop of \<^verbatim>\<open>close\<close> over the engine's model list.\<close>

fun close_foreach :: "nat list \<Rightarrow> (nat \<Rightarrow> nat option) \<Rightarrow> (nat \<Rightarrow> nat option)" where
  "close_foreach [] m = m"
| "close_foreach (metaInfo # models) m =
     close_foreach models (if m metaInfo \<noteq> None then m(metaInfo := None) else m)"

definition close :: "'e DQEngine \<Rightarrow> nat \<Rightarrow> 'e world \<Rightarrow> error + 'e world" where
  "close E d w =
     (if d = 0 then Inr w
      else case privs w d of
        None \<Rightarrow> Inl DanglingPointer
      | Some p \<Rightarrow>
          let w1 = w\<lparr>privs := (privs w)(d \<mapsto> p\<lparr>d_sql_database := QSqlDatabase_default\<rparr>)\<rparr>
          in if d_engine p = 0 then Inl NullDereference
             else (case engines w1 (d_engine p) of
                     None \<Rightarrow> Inl DanglingPointer
                   | Some e \<Rightarrow>
                       let e1 = engine_close E e;
                           w2 = w1\<lparr>engines := (engines w1)(d_engine p \<mapsto> e1)\<rparr>;
                           models = engine_modelList E e1
                       in Inr (w2\<lparr>mapping := close_foreach models (mapping w2)\<rparr>)))"

definition addModel ::
  "'e DQEngine \<Rightarrow> nat \<Rightarrow> nat \<Rightarrow> 'e world \<Rightarrow> error + (bool \<times> nat \<times> 'e world)" where
  "addModel E metaInfo d w =
     (if metaInfo = 0 then Inr (False, d, w)
      else case PREPARE_PRIV E d w of
        Inl x \<Rightarrow> Inl x
      | Inr (d1, w1) \<Rightarrow>
         (case privs w1 d1 of
            None \<Rightarrow> Inl DanglingPointer
          | Some p \<Rightarrow>
              if d_engine p = 0 then Inl NullDereference
              else (case engines w1 (d_engine p) of
                      None \<Rightarrow> Inl DanglingPointer
                    | Some e \<Rightarrow>
                        let (res, e1) = engine_addModel E metaInfo e;
                            w2 = w1\<lparr>engines := (engines w1)(d_engine p \<mapsto> e1)\<rparr>
                        in Inr (res, d1,
                                if res \<and> mapping w2 metaInfo = None
                                then w2\<lparr>mapping := (mapping w2)(metaInfo \<mapsto> d1)\<rparr>
                                else w2))))"

definition defaultConnection :: "nat \<Rightarrow> 'e world \<Rightarrow> error + (nat \<times> 'e world)" where
  "defaultConnection metaInfo w =
     (if metaInfo = 0 then Inr (0, w)
      else case mapping w metaInfo of
        Some c \<Rightarrow> Inr (c, w)
      | None \<Rightarrow>
         (case metaInfos w metaInfo of
            None \<Rightarrow> Inl DanglingPointer
          | Some info \<Rightarrow>
              Inr (0, w\<lparr>warnings := warnings w
                     @ [arg ''Model %1 is not added to any connection yet'' (name info)]\<rparr>)))"

definition setDefaultConnection :: "nat \<Rightarrow> nat \<Rightarrow> 'e world \<Rightarrow> 'e world" where
  "setDefaultConnection metaInfo d w = w\<lparr>mapping := (mapping w)(metaInfo \<mapsto> d)\<rparr>"

definition setLastQuery ::
  "'e DQEngine \<Rightarrow> QSqlQuery \<Rightarrow> nat \<Rightarrow> 'e world \<Rightarrow> error + 'e world" where
  "setLastQuery E query d w =
     (case isOpen E d w of
        Inl x \<Rightarrow> Inl x
      | Inr False \<Rightarrow> Inr w
      | Inr True \<Rightarrow>
         (case privs w d of
            None \<Rightarrow> Inl DanglingPointer
          | Some p \<Rightarrow> Inr (w\<lparr>privs := (privs w)(d \<mapsto> p\<lparr>d_lastQuery := query\<rparr>)\<rparr>)))"

definition lastQuery :: "'e DQEngine \<Rightarrow> nat \<Rightarrow> 'e world \<Rightarrow> error + QSqlQuery" where
  "lastQuery E d w =
     (case isOpen E d w of
        Inl x \<Rightarrow> Inl x
      | Inr False \<Rightarrow> Inr QSqlQuery_default
      | Inr True \<Rightarrow>
         (case privs w d of
            None \<Rightarrow> Inl DanglingPointer
          | Some p \<Rightarrow> Inr (d_lastQuery p)))"

section \<open>Example inputs\<close>

text \<open>The model \<^verbatim>\<open>User\<close> with the fields \<^verbatim>\<open>id\<close> and \<^verbatim>\<open>name\<close>, and queries over it.\<close>

definition user :: DQModelMetaInfo where
  "user = \<lparr>name = ''User'', fieldNameList = [''id'', ''name'']\<rparr>"

definition no_filter :: DQExpression where
  "no_filter = \<lparr>expr_isNull = True, expr_string = []\<rparr>"

definition all_users :: "int \<Rightarrow> int \<Rightarrow> DQQueryRules" where
  "all_users lim off =
     \<lparr>rules_metaInfo = user, rules_fields = [], func = [], expression = no_filter,
      limit = lim, offset = off\<rparr>"

text \<open>
  Modelled from the spec: \<^verbatim>\<open>DQSqliteEngine\<close> is not among the sources. The spec describes
  an engine as owning zero or one open physical connection and the set of model types
  bound to it through \<^verbatim>\<open>addModel\<close>, and as keeping the bound models when it is closed.
  This engine is used for the example runs only; the theorems about connections hold
  for every engine.
\<close>

record SqliteEngine =
  se_isOpen :: bool
  se_models :: "nat list"

definition sqlite :: "SqliteEngine DQEngine" where
  "sqlite =
     \<lparr>sqlite_new = \<lparr>se_isOpen = False, se_models = []\<rparr>,
      engine_open = (\<lambda>db e. (db_isOpen db, e\<lparr>se_isOpen := db_isOpen db\<rparr>)),
      engine_close = (\<lambda>e. e\<lparr>se_isOpen := False\<rparr>),
      engine_isOpen = se_isOpen,
      engine_addModel = (\<lambda>m e. if m \<in> set (se_models e) then (False, e)
                                else (True, e\<lparr>se_models := se_models e @ [m]\<rparr>)),
      engine_modelList = se_models\<rparr>"

definition live_db :: QSqlDatabase where
  "live_db = \<lparr>db_isOpen = True, connectionName = ''main''\<rparr>"

text \<open>
  The process at its start: no connection, no engine, the metadata of \<^verbatim>\<open>User\<close> at
  address \<open>7\<close>, an empty mapping; the addresses that \<^verbatim>\<open>new\<close> returns start at \<open>11\<close>.
\<close>

definition world0 :: "SqliteEngine world" where
  "world0 =
     \<lparr>privs = Map.empty, engines = Map.empty, metaInfos = [7 \<mapsto> user],
      mapping = Map.empty, warnings = [], next_addr = 10\<rparr>"

text \<open>
  First run: \<^verbatim>\<open>DQConnection c1, c2; c1.addModel(user); c2.addModel(user); c2.close();\<close>
  The state of \<^verbatim>\<open>c1\<close> is allocated at address \<open>11\<close> and its engine at \<open>12\<close>, the state
  of \<^verbatim>\<open>c2\<close> at \<open>13\<close> and its engine at \<open>14\<close>.
\<close>

definition w_bound1 :: "SqliteEngine world" where
  "w_bound1 = snd (snd (projr (addModel sqlite 7 0 world0)))"

definition w_bound2 :: "SqliteEngine world" where
  "w_bound2 = snd (snd (projr (addModel sqlite 7 0 w_bound1)))"

definition w_closed2 :: "SqliteEngine world" where
  "w_closed2 = projr (close sqlite 13 w_bound2)"

text \<open>
  Second run: \<^verbatim>\<open>DQConnection c; c.open(db); c.setLastQuery(q); c.close();\<close>
  with the state of \<^verbatim>\<open>c\<close> at address \<open>11\<close> and its engine at \<open>12\<close>.
\<close>

definition w_open :: "SqliteEngine world" where
  "w_open = snd (snd (projr (open sqlite live_db 0 world0)))"

definition w_query :: "SqliteEngine world" where
  "w_query = projr (setLastQuery sqlite (QSqlQuery ''SELECT ALL * FROM User ;'') 11 w_open)"

definition w_shut :: "SqliteEngine world" where
  "w_shut = projr (close sqlite 11 w_query)"

section \<open>Facts about the text primitives\<close>

lemma arg_LIMIT: "arg ''LIMIT %1'' a = ''LIMIT '' @ a"
  by (simp add: arg_def getEscape_def digitValue_def)

lemma arg_OFFSET: "arg ''OFFSET %1'' a = ''OFFSET '' @ a"
  by (simp add: arg_def getEscape_def digitValue_def)

lemma arg_select_star:
  "arg (arg (arg ''SELECT %1 %2 FROM %3'' ''ALL'') ''*'') n = ''SELECT ALL * FROM '' @ n"
  by (simp add: arg_def getEscape_def digitValue_def)

lemma number_5: "number 5 = ''5''"
  by code_simp

lemma number_10: "number 10 = ''10''"
  by code_simp

lemma placeholders_acc: "foldl (\<lambda>values f. values @ [g f]) acc fs = acc @ map g fs"
  by (induction fs arbitrary: acc) simp_all

lemma placeholders_map: "placeholders fs = map ((#) CHR '':'') fs"
  by (simp add: placeholders_def placeholders_acc)

lemma indexOf_absent: "x \<notin> set xs \<Longrightarrow> indexOf xs x = - 1"
  by (induction xs) (auto simp: Let_def)

lemma indexOf_present: "x \<in> set xs \<Longrightarrow> 0 \<le> indexOf xs x"
  by (induction xs) (auto simp: Let_def)

lemma removeAt_Cons_Suc: "0 \<le> i \<Longrightarrow> removeAt (y # ys) (i + 1) = y # removeAt ys i"
  by (auto simp: removeAt_def nat_add_distrib)

text \<open>Removing at the index of the first occurrence removes the first occurrence.\<close>

lemma removeAt_indexOf: "x \<in> set xs \<Longrightarrow> removeAt xs (indexOf xs x) = remove1 x xs"
proof (induction xs)
  case Nil
  then show ?case by simp
next
  case (Cons y ys)
  show ?case
  proof (cases "y = x")
    case True
    then show ?thesis by (simp add: removeAt_def)
  next
    case False
    with Cons.prems have mem: "x \<in> set ys" by simp
    then have "0 \<le> indexOf ys x" by (rule indexOf_present)
    with False mem Cons.IH show ?thesis
      by (simp add: Let_def removeAt_Cons_Suc)
  qed
qed

lemma remove_first_id:
  "(let idx = indexOf fs x in if idx \<ge> 0 then removeAt fs idx else fs) = remove1 x fs"
proof (cases "x \<in> set fs")
  case True
  then show ?thesis
    using indexOf_present [OF True] by (simp add: Let_def removeAt_indexOf)
next
  case False
  then show ?thesis
    by (simp add: Let_def indexOf_absent remove1_idem)
qed

lemma insertInto_False:
  "insertInto info False = insertInto_aux info ''INSERT'' (remove1 ''id'' (fieldNameList info))"
  using remove_first_id [of "fieldNameList info" "''id''"]
  by (simp add: insertInto_def Let_def)

lemma replaceInto_False:
  "replaceInto info False = insertInto_aux info ''REPLACE'' (remove1 ''id'' (fieldNameList info))"
  using remove_first_id [of "fieldNameList info" "''id''"]
  by (simp add: replaceInto_def Let_def)

lemma insertInto_True:
  "insertInto info True = insertInto_aux info ''INSERT'' (fieldNameList info)"
  by (simp add: insertInto_def)

lemma replaceInto_True:
  "replaceInto info True = insertInto_aux info ''REPLACE'' (fieldNameList info)"
  by (simp add: replaceInto_def)

lemma count_list_one: "distinct xs \<Longrightarrow> x \<in> set xs \<Longrightarrow> count_list xs x = 1"
  by (induction xs) (auto simp: count_list_0_iff)

section \<open>Statements\<close>

lemma limitAndOffset_zero: "limitAndOffset lim 0 = ''LIMIT '' @ number lim"
  by (simp add: limitAndOffset_def arg_int_def arg_LIMIT)

lemma limitAndOffset_pos:
  "0 < off \<Longrightarrow> limitAndOffset lim off = ''LIMIT '' @ number lim @ '' OFFSET '' @ number off"
  by (simp add: limitAndOffset_def arg_int_def arg_LIMIT arg_OFFSET)

lemma all_users_sel:
  "rules_metaInfo (all_users l off) = user" "rules_fields (all_users l off) = []"
  "func (all_users l off) = []" "expression (all_users l off) = no_filter"
  "limit (all_users l off) = l" "offset (all_users l off) = off"
  by (simp_all add: all_users_def)

lemma selectCore_all_users: "selectCore (all_users l off) = ''SELECT ALL * FROM User''"
  by (simp add: selectCore_def selectResultColumn_def all_users_sel no_filter_def user_def
      arg_select_star)

text \<open>
  Claim C1, as amended. \<^verbatim>\<open>select\<close> calls the limit-clause renderer with the limit alone,
  so the offset of the query is never passed: for every query with a limit above zero
  the statement is the select core, then \<^verbatim>\<open>LIMIT n\<close>, then the terminator, each joined by
  one space, whatever the offset of the query. The renderer itself, called with an
  offset above zero, appends \<^verbatim>\<open>OFFSET m\<close>, and with offset zero it gives \<^verbatim>\<open>LIMIT n\<close> alone.
\<close>

theorem select_limit_clause:
  assumes "0 < limit rules" and "0 < off"
  shows "select rules = selectCore rules @ '' LIMIT '' @ number (limit rules) @ '' ;''
         \<and> limitAndOffset lim off = ''LIMIT '' @ number lim @ '' OFFSET '' @ number off
         \<and> limitAndOffset lim 0 = ''LIMIT '' @ number lim"
  using assms
  by (simp add: select_def default_offset_def limitAndOffset_zero limitAndOffset_pos)

theorem select_limit_clause_witness:
  "0 < limit (all_users 5 10) \<and> (0::int) < 10
   \<and> offset (all_users 5 10) = 10
   \<and> select (all_users 5 10) = ''SELECT ALL * FROM User LIMIT 5 ;''
   \<and> limitAndOffset 5 10 = ''LIMIT 5 OFFSET 10''
   \<and> limitAndOffset 5 0 = ''LIMIT 5''"
  using select_limit_clause [of "all_users 5 10" 10 5]
  by (simp add: selectCore_all_users number_5 number_10 all_users_sel)

text \<open>
  The claim as it was stated fails: the query over \<^verbatim>\<open>User\<close> with limit 5 and offset 10
  gives a statement with \<^verbatim>\<open>LIMIT 5\<close> and no \<^verbatim>\<open>OFFSET\<close>.
\<close>

theorem select_offset_counterexample:
  "limit (all_users 5 10) = 5 \<and> offset (all_users 5 10) = 10
   \<and> select (all_users 5 10) = ''SELECT ALL * FROM User LIMIT 5 ;''
   \<and> select (all_users 5 10) \<noteq> ''SELECT ALL * FROM User LIMIT 5 OFFSET 10 ;''
   \<and> select (all_users 5 10) \<noteq> ''SELECT ALL * FROM User LIMIT 5 OFFSET 10;''"
proof -
  have "select (all_users 5 10) = ''SELECT ALL * FROM User LIMIT 5 ;''"
    by (simp add: select_def selectCore_all_users default_offset_def limitAndOffset_zero number_5
        all_users_sel)
  then show ?thesis by (simp add: all_users_sel)
qed

text \<open>
  Claim C4, as amended. For every query with an empty field list, an empty aggregate
  function name, a null filter expression and limit 0, \<^verbatim>\<open>select\<close> returns exactly
  \<^verbatim>\<open>SELECT ALL * FROM <table> ;\<close>: the parts of a statement are joined by one space, so
  one space stands between the table name and the terminating semicolon. There is no
  \<^verbatim>\<open>WHERE\<close> and no \<^verbatim>\<open>LIMIT\<close> clause.
\<close>

theorem select_all:
  assumes "rules_fields rules = []" and "func rules = []"
    and "expr_isNull (expression rules)" and "limit rules = 0"
  shows "select rules = ''SELECT ALL * FROM '' @ name (rules_metaInfo rules) @ '' ;''"
  using assms
  by (simp add: select_def selectCore_def selectResultColumn_def arg_select_star)

theorem select_all_witness:
  "rules_fields (all_users 0 0) = [] \<and> func (all_users 0 0) = []
   \<and> expr_isNull (expression (all_users 0 0)) \<and> limit (all_users 0 0) = 0
   \<and> select (all_users 0 0) = ''SELECT ALL * FROM User ;''"
  using select_all [of "all_users 0 0"]
  by (simp add: all_users_sel no_filter_def user_def)

text \<open>
  The claim as it was stated fails: for the query over \<^verbatim>\<open>User\<close> the statement is not the
  table name immediately followed by the semicolon.
\<close>

theorem select_all_counterexample:
  "rules_fields (all_users 0 0) = [] \<and> func (all_users 0 0) = []
   \<and> expr_isNull (expression (all_users 0 0)) \<and> limit (all_users 0 0) = 0
   \<and> select (all_users 0 0)
       \<noteq> ''SELECT ALL * FROM '' @ name (rules_metaInfo (all_users 0 0)) @ '';''"
  by (simp add: select_def selectCore_all_users all_users_sel no_filter_def user_def)

text \<open>
  Claim C6. A model's field names are unique (the invariant of the model metadata).
  For every such model whose field list contains \<^verbatim>\<open>id\<close>, \<^verbatim>\<open>insertInto\<close> without the id
  builds its column list and its placeholder list from the field list with \<^verbatim>\<open>id\<close>
  removed, so \<^verbatim>\<open>id\<close> is in neither list; with the id it builds them from the whole
  field list, where \<^verbatim>\<open>id\<close> and its placeholder \<^verbatim>\<open>:id\<close> occur exactly once.
\<close>

theorem insertInto_id:
  assumes "distinct (fieldNameList info)" and "''id'' \<in> set (fieldNameList info)"
  shows "insertInto info False =
           ''INSERT INTO '' @ name info
             @ '' ('' @ join (remove1 ''id'' (fieldNameList info)) '',''
             @ '') values (''
             @ join (map ((#) CHR '':'') (remove1 ''id'' (fieldNameList info))) '',''
             @ '');''
         \<and> ''id'' \<notin> set (remove1 ''id'' (fieldNameList info))
         \<and> '':id'' \<notin> set (map ((#) CHR '':'') (remove1 ''id'' (fieldNameList info)))
         \<and> insertInto info True =
           ''INSERT INTO '' @ name info
             @ '' ('' @ join (fieldNameList info) '',''
             @ '') values ('' @ join (map ((#) CHR '':'') (fieldNameList info)) '',''
             @ '');''
         \<and> count_list (fieldNameList info) ''id'' = 1
         \<and> count_list (map ((#) CHR '':'') (fieldNameList info)) '':id'' = 1"
proof -
  let ?fs = "fieldNameList info"
  have a: "''id'' \<notin> set (remove1 ''id'' ?fs)"
    using assms(1) by simp
  have b: "'':id'' \<notin> set (map ((#) CHR '':'') (remove1 ''id'' ?fs))"
    using a by auto
  have c: "count_list ?fs ''id'' = 1"
    using assms by (rule count_list_one)
  have d: "count_list (map ((#) CHR '':'') ?fs) '':id'' = 1"
    using assms by (intro count_list_one) (auto simp: distinct_map)
  show ?thesis
    using a b c d
    by (simp add: insertInto_False insertInto_True insertInto_aux_def placeholders_map)
qed

text \<open>The example of the claim: fields \<^verbatim>\<open>id\<close> and \<^verbatim>\<open>name\<close> of the model \<^verbatim>\<open>User\<close>.\<close>

theorem insertInto_id_witness:
  "distinct (fieldNameList user) \<and> ''id'' \<in> set (fieldNameList user)
   \<and> insertInto user False = ''INSERT INTO User (name) values (:name);''
   \<and> insertInto user True = ''INSERT INTO User (id,name) values (:id,:name);''"
  using insertInto_id [of user]
  by (simp add: user_def)

text \<open>
  Claim C7. For the same model metadata and the same flag, \<^verbatim>\<open>insertInto\<close> and
  \<^verbatim>\<open>replaceInto\<close> return the same text after the leading keyword, \<^verbatim>\<open>INSERT\<close> in one and
  \<^verbatim>\<open>REPLACE\<close> in the other: the same column list and the same placeholder list, built
  from the field list, or from the field list without the first \<^verbatim>\<open>id\<close> when the flag is
  false.
\<close>

theorem replaceInto_insertInto:
  "insertInto info with_id =
     ''INSERT'' @ '' INTO '' @ name info
       @ '' (''
       @ join (if with_id then fieldNameList info
               else remove1 ''id'' (fieldNameList info)) '',''
       @ '') values (''
       @ join (map ((#) CHR '':'')
                 (if with_id then fieldNameList info
                  else remove1 ''id'' (fieldNameList info))) '',''
       @ '');''
   \<and> replaceInto info with_id =
     ''REPLACE'' @ '' INTO '' @ name info
       @ '' (''
       @ join (if with_id then fieldNameList info
               else remove1 ''id'' (fieldNameList info)) '',''
       @ '') values (''
       @ join (map ((#) CHR '':'')
                 (if with_id then fieldNameList info
                  else remove1 ''id'' (fieldNameList info))) '',''
       @ '');''"
  by (cases with_id)
     (simp_all add: insertInto_False insertInto_True replaceInto_False replaceInto_True
        insertInto_aux_def placeholders_map)

section \<open>Connections\<close>

subsection \<open>The example runs\<close>

lemmas conn_defs = addModel_def PREPARE_PRIV_def isNull_def new_priv_def new_engine_def
  setEngine_def isOpen_def open_def close_def setLastQuery_def lastQuery_def

lemma sqlite_sel:
  "sqlite_new sqlite = \<lparr>se_isOpen = False, se_models = []\<rparr>"
  "engine_open sqlite db e = (db_isOpen db, e\<lparr>se_isOpen := db_isOpen db\<rparr>)"
  "engine_close sqlite e = e\<lparr>se_isOpen := False\<rparr>"
  "engine_isOpen sqlite e = se_isOpen e"
  "engine_addModel sqlite m e = (if m \<in> set (se_models e) then (False, e)
                                else (True, e\<lparr>se_models := se_models e @ [m]\<rparr>))"
  "engine_modelList sqlite e = se_models e"
  by (simp_all add: sqlite_def)

lemma w_bound1_eq:
  "w_bound1 =
     \<lparr>privs = [11 \<mapsto> \<lparr>d_sql_statement = False, d_sql_database = QSqlDatabase_default,
                       d_lastQuery = QSqlQuery_default, d_engine = 12\<rparr>],
      engines = [12 \<mapsto> \<lparr>se_isOpen = False, se_models = [7]\<rparr>],
      metaInfos = [7 \<mapsto> user], mapping = [7 \<mapsto> 11], warnings = [], next_addr = 12\<rparr>"
  by (simp add: w_bound1_def world0_def conn_defs Let_def sqlite_sel)

lemma addModel_world0: "addModel sqlite 7 0 world0 = Inr (True, 11, w_bound1)"
  by (simp add: w_bound1_def world0_def conn_defs Let_def sqlite_sel)

lemma w_bound2_eq:
  "w_bound2 =
     \<lparr>privs = [11 \<mapsto> \<lparr>d_sql_statement = False, d_sql_database = QSqlDatabase_default,
                       d_lastQuery = QSqlQuery_default, d_engine = 12\<rparr>,
               13 \<mapsto> \<lparr>d_sql_statement = False, d_sql_database = QSqlDatabase_default,
                       d_lastQuery = QSqlQuery_default, d_engine = 14\<rparr>],
      engines = [12 \<mapsto> \<lparr>se_isOpen = False, se_models = [7]\<rparr>,
                 14 \<mapsto> \<lparr>se_isOpen = False, se_models = [7]\<rparr>],
      metaInfos = [7 \<mapsto> user], mapping = [7 \<mapsto> 11], warnings = [], next_addr = 14\<rparr>"
  by (simp add: w_bound2_def w_bound1_eq conn_defs Let_def sqlite_sel)

lemma addModel_w_bound1: "addModel sqlite 7 0 w_bound1 = Inr (True, 13, w_bound2)"
  by (simp add: w_bound2_def w_bound1_eq conn_defs Let_def sqlite_sel)

lemma privs_w_bound2:
  "privs w_bound2 13 =
     Some \<lparr>d_sql_statement = False, d_sql_database = QSqlDatabase_default,
           d_lastQuery = QSqlQuery_default, d_engine = 14\<rparr>"
  by (simp add: w_bound2_eq)

lemma engines_w_bound2: "engines w_bound2 14 = Some \<lparr>se_isOpen = False, se_models = [7]\<rparr>"
  by (simp add: w_bound2_eq)

lemma mapping_w_bound2: "mapping w_bound2 7 = Some 11"
  by (simp add: w_bound2_eq)

lemma close_w_bound2: "close sqlite 13 w_bound2 = Inr w_closed2"
  by (simp add: w_closed2_def w_bound2_eq conn_defs Let_def sqlite_sel)

lemma mapping_w_closed2: "mapping w_closed2 7 = None"
  by (simp add: w_closed2_def w_bound2_eq conn_defs Let_def sqlite_sel)

lemma w_open_eq:
  "w_open =
     \<lparr>privs = [11 \<mapsto> \<lparr>d_sql_statement = True, d_sql_database = live_db,
                       d_lastQuery = QSqlQuery_default, d_engine = 12\<rparr>],
      engines = [12 \<mapsto> \<lparr>se_isOpen = True, se_models = []\<rparr>], metaInfos = [7 \<mapsto> user],
      mapping = Map.empty, warnings = [], next_addr = 12\<rparr>"
  by (simp add: w_open_def world0_def conn_defs Let_def sqlite_sel) (simp add: live_db_def)

lemma open_world0: "open sqlite live_db 0 world0 = Inr (True, 11, w_open)"
  by (simp add: w_open_def world0_def conn_defs Let_def sqlite_sel) (simp add: live_db_def)

lemma w_query_eq:
  "w_query =
     \<lparr>privs = [11 \<mapsto> \<lparr>d_sql_statement = True, d_sql_database = live_db,
                       d_lastQuery = QSqlQuery ''SELECT ALL * FROM User ;'', d_engine = 12\<rparr>],
      engines = [12 \<mapsto> \<lparr>se_isOpen = True, se_models = []\<rparr>], metaInfos = [7 \<mapsto> user],
      mapping = Map.empty, warnings = [], next_addr = 12\<rparr>"
  by (simp add: w_query_def w_open_eq conn_defs Let_def sqlite_sel)

lemma w_shut_eq:
  "w_shut =
     \<lparr>privs = [11 \<mapsto> \<lparr>d_sql_statement = True, d_sql_database = QSqlDatabase_default,
                       d_lastQuery = QSqlQuery ''SELECT ALL * FROM User ;'', d_engine = 12\<rparr>],
      engines = [12 \<mapsto> \<lparr>se_isOpen = False, se_models = []\<rparr>], metaInfos = [7 \<mapsto> user],
      mapping = Map.empty, warnings = [], next_addr = 12\<rparr>"
  by (simp add: w_shut_def w_query_eq conn_defs Let_def sqlite_sel)

text \<open>The second run goes through: the query is stored while the connection is open.\<close>

lemma w_query_run:
  "setLastQuery sqlite (QSqlQuery ''SELECT ALL * FROM User ;'') 11 w_open = Inr w_query"
  "lastQuery sqlite 11 w_query = Inr (QSqlQuery ''SELECT ALL * FROM User ;'')"
  "close sqlite 11 w_query = Inr w_shut"
  by (simp_all add: w_query_eq w_shut_eq w_open_eq conn_defs Let_def sqlite_sel)

subsection \<open>Closing a connection\<close>

lemma close_foreach_eq:
  "close_foreach models m = (\<lambda>k. if k \<in> set models then None else m k)"
proof (induction models arbitrary: m)
  case Nil
  show ?case by simp
next
  case (Cons a models)
  show ?case by (rule ext) (simp add: Cons.IH)
qed

text \<open>
  Claim C2, as amended. \<^verbatim>\<open>close\<close> on a connection that has its state and a live engine
  detaches the database handle, closes the engine and, for every model that the closed
  engine reports as bound, removes the model's entry from the default-connection
  mapping, whichever connection the entry points at. The entries of all other models
  stay as they are.
\<close>

theorem close_removes_bound_models:
  assumes "d \<noteq> 0" and "privs w d = Some p" and "d_engine p \<noteq> 0"
    and "engines w (d_engine p) = Some e"
  shows "close E d w =
           Inr (w\<lparr>privs := (privs w)(d \<mapsto> p\<lparr>d_sql_database := QSqlDatabase_default\<rparr>),
                  engines := (engines w)(d_engine p \<mapsto> engine_close E e),
                  mapping := (\<lambda>k. if k \<in> set (engine_modelList E (engine_close E e))
                                    then None else mapping w k)\<rparr>)"
  using assms by (simp add: close_def Let_def close_foreach_eq cong: if_cong)

theorem close_removes_bound_models_witness:
  "(13::nat) \<noteq> 0
   \<and> privs w_bound2 13 =
       Some \<lparr>d_sql_statement = False, d_sql_database = QSqlDatabase_default,
             d_lastQuery = QSqlQuery_default, d_engine = 14\<rparr>
   \<and> (14::nat) \<noteq> 0
   \<and> engines w_bound2 14 = Some \<lparr>se_isOpen = False, se_models = [7]\<rparr>
   \<and> map_sum id (\<lambda>w. engines w 14) (close sqlite 13 w_bound2)
        = Inr (Some \<lparr>se_isOpen = False, se_models = [7]\<rparr>)
   \<and> map_sum id (\<lambda>w. mapping w 7) (close sqlite 13 w_bound2) = Inr None"
  using close_removes_bound_models [of 13 w_bound2
      "\<lparr>d_sql_statement = False, d_sql_database = QSqlDatabase_default,
        d_lastQuery = QSqlQuery_default, d_engine = 14\<rparr>"
      "\<lparr>se_isOpen = False, se_models = [7]\<rparr>" sqlite]
  by (simp add: privs_w_bound2 engines_w_bound2 sqlite_sel)

text \<open>
  The claim as it was stated fails. In the first run the model at address \<open>7\<close> is bound
  to two connections and its default is the first one, at \<open>11\<close>. Closing the second
  connection, at \<open>13\<close>, removes the entry although it points at the other connection.
\<close>

theorem close_other_connection_counterexample:
  "addModel sqlite 7 0 world0 = Inr (True, 11, w_bound1)
   \<and> addModel sqlite 7 0 w_bound1 = Inr (True, 13, w_bound2)
   \<and> mapping w_bound2 7 = Some 11
   \<and> (11::nat) \<noteq> 13
   \<and> close sqlite 13 w_bound2 = Inr w_closed2
   \<and> mapping w_closed2 7 \<noteq> mapping w_bound2 7
   \<and> mapping w_closed2 7 = None"
  by (simp add: addModel_world0 addModel_w_bound1 mapping_w_bound2 close_w_bound2
      mapping_w_closed2)

text \<open>After the close the model has no default connection, and the lookup warns.\<close>

lemma defaultConnection_after_close:
  "map_sum id fst (defaultConnection 7 w_closed2) = Inr 0"
  "map_sum id (\<lambda>r. warnings (snd r)) (defaultConnection 7 w_closed2)
     = Inr [''Model User is not added to any connection yet'']"
  by (simp_all add: defaultConnection_def mapping_w_closed2)
     (simp_all add: w_closed2_def w_bound2_eq conn_defs Let_def sqlite_sel user_def
        arg_def getEscape_def digitValue_def)

subsection \<open>Null connections\<close>

lemma isOpen_null: "isOpen E 0 w = Inr False"
  by (simp add: isOpen_def)

text \<open>
  On a null connection the macro allocates the state, then a default engine, and
  installs the engine. \<^verbatim>\<open>open\<close> and \<^verbatim>\<open>addModel\<close> start with the macro, so they allocate.
\<close>

lemma PREPARE_PRIV_null:
  "PREPARE_PRIV E 0 w =
     Inr (next_addr w + 1,
          w\<lparr>privs := (privs w)(next_addr w + 1 \<mapsto>
               \<lparr>d_sql_statement = False, d_sql_database = QSqlDatabase_default,
                d_lastQuery = QSqlQuery_default, d_engine = next_addr w + 2\<rparr>),
            engines := (engines w)(next_addr w + 2 \<mapsto> sqlite_new E),
            next_addr := next_addr w + 2\<rparr>)"
  by (simp add: PREPARE_PRIV_def isNull_def new_priv_def new_engine_def setEngine_def
      isOpen_def Let_def)

lemma open_null:
  assumes "db_isOpen db"
  shows "open E db 0 w =
     Inr (True, next_addr w + 1,
          w\<lparr>privs := (privs w)(next_addr w + 1 \<mapsto>
               \<lparr>d_sql_statement = True, d_sql_database = db,
                d_lastQuery = QSqlQuery_default, d_engine = next_addr w + 2\<rparr>),
            engines := (engines w)(next_addr w + 2 \<mapsto>
               snd (engine_open E db (sqlite_new E))),
            next_addr := next_addr w + 2\<rparr>)"
  using assms by (simp add: open_def PREPARE_PRIV_null Let_def)

lemma addModel_null:
  assumes "metaInfo \<noteq> 0"
  shows "\<exists>w'. addModel E metaInfo 0 w =
           Inr (fst (engine_addModel E metaInfo (sqlite_new E)), next_addr w + 1, w')
         \<and> privs w' (next_addr w + 1) =
             Some \<lparr>d_sql_statement = False, d_sql_database = QSqlDatabase_default,
                   d_lastQuery = QSqlQuery_default, d_engine = next_addr w + 2\<rparr>
         \<and> engines w' (next_addr w + 2) =
             Some (snd (engine_addModel E metaInfo (sqlite_new E)))"
  using assms by (simp add: addModel_def PREPARE_PRIV_null Let_def split: prod.splits)

text \<open>
  Claim C3. The claim says that \<^verbatim>\<open>setEngine\<close> on a null connection allocates the state
  first and does not read through the absent state. The code does not: \<^verbatim>\<open>setEngine\<close>
  does not start with the macro. On a null connection \<^verbatim>\<open>isOpen\<close> is false, and the next
  statement locks \<^verbatim>\<open>d->mutex\<close> through the null pointer \<^verbatim>\<open>d\<close>.
\<close>

theorem setEngine_null_state:
  "isNull 0 \<and> setEngine E engine 0 w = Inl NullDereference"
  by (simp add: setEngine_def isOpen_null isNull_def)

subsection \<open>Replacing the engine\<close>

lemma setEngine_open:
  "isOpen E d w = Inr True \<Longrightarrow> setEngine E engine d w = Inr (False, w)"
  by (simp add: setEngine_def)

lemma setEngine_not_open:
  assumes "isOpen E d w = Inr False" and "privs w d = Some p" and "d \<noteq> 0"
  shows "setEngine E engine d w =
           Inr (True, w\<lparr>engines := (if d_engine p \<noteq> 0 then (engines w)(d_engine p := None)
                                     else engines w),
                         privs := (privs w)(d \<mapsto> p\<lparr>d_engine := engine\<rparr>)\<rparr>)"
  using assms by (simp add: setEngine_def Let_def)

text \<open>
  Claim C5. On an open connection \<^verbatim>\<open>setEngine\<close> returns false and changes nothing, and on
  a connection that has its state and is not open it returns true, deletes the engine
  it had and installs the new one (the two lemmas above). The claim speaks of every
  connection that is not open, and a null connection is not open: there the code reads
  through the null pointer instead of returning true. The run is
  \<^verbatim>\<open>DQConnection c; c.setEngine(new DQSqliteEngine());\<close> at the start of the process.
\<close>

theorem setEngine_fresh_connection:
  "isOpen sqlite 0 (snd (new_engine (sqlite_new sqlite) world0)) = Inr False
   \<and> engines (snd (new_engine (sqlite_new sqlite) world0))
        (fst (new_engine (sqlite_new sqlite) world0)) = Some (sqlite_new sqlite)
   \<and> setEngine sqlite (fst (new_engine (sqlite_new sqlite) world0)) 0
        (snd (new_engine (sqlite_new sqlite) world0)) = Inl NullDereference"
  by (simp add: setEngine_def isOpen_def new_engine_def Let_def)

subsection \<open>Default connections\<close>

lemma PREPARE_PRIV_mapping:
  "PREPARE_PRIV E d w = Inr (d1, w1) \<Longrightarrow> mapping w1 = mapping w"
  by (auto simp: PREPARE_PRIV_def isNull_def new_priv_def new_engine_def setEngine_def Let_def
      split: if_splits option.splits sum.splits bool.splits prod.splits)

lemma addModel_mapping:
  assumes "addModel E m d w = Inr (True, d', w')"
  shows "mapping w' = (if mapping w m = None then (mapping w)(m \<mapsto> d') else mapping w)"
proof -
  from assms have m: "m \<noteq> 0"
    by (auto simp: addModel_def split: if_splits)
  from assms m obtain d1 w1 where pp: "PREPARE_PRIV E d w = Inr (d1, w1)"
    by (auto simp: addModel_def split: sum.splits)
  then have map1: "mapping w1 = mapping w"
    by (rule PREPARE_PRIV_mapping)
  from assms m pp map1 show ?thesis
    by (auto simp: addModel_def Let_def split: option.splits if_splits prod.splits)
qed

text \<open>
  Claim C8. When \<^verbatim>\<open>addModel(m)\<close> succeeds and \<open>m\<close> has no entry in the mapping, the
  connection it was called on (its handle after the call, \<open>d1'\<close>) becomes the default of
  \<open>m\<close>. A later successful \<^verbatim>\<open>addModel(m)\<close> on a second connection leaves that default as
  it is. \<^verbatim>\<open>setDefaultConnection(m)\<close> on any connection, in any state of the mapping, makes
  that connection the default.
\<close>

theorem addModel_first_default:
  assumes "addModel E m d1 w = Inr (True, d1', w1)" and "mapping w m = None"
    and "addModel E m d2 w1 = Inr (True, d2', w2)"
  shows "mapping w1 m = Some d1' \<and> mapping w2 m = Some d1'
         \<and> mapping (setDefaultConnection m d3 w3) m = Some d3"
proof -
  have a: "mapping w1 m = Some d1'"
    using addModel_mapping [OF assms(1)] assms(2) by simp
  have b: "mapping w2 m = Some d1'"
    using addModel_mapping [OF assms(3)] a by simp
  show ?thesis using a b by (simp add: setDefaultConnection_def)
qed

theorem addModel_first_default_witness:
  "addModel sqlite 7 0 world0 = Inr (True, 11, w_bound1) \<and> mapping world0 7 = None
   \<and> addModel sqlite 7 0 w_bound1 = Inr (True, 13, w_bound2)
   \<and> mapping w_bound1 7 = Some 11 \<and> mapping w_bound2 7 = Some 11
   \<and> mapping (setDefaultConnection 7 13 w_bound2) 7 = Some 13"
  using addModel_first_default [of sqlite 7 0 world0 11 w_bound1 0 13 w_bound2 13 w_bound2]
  by (simp add: addModel_world0 addModel_w_bound1) (simp add: world0_def)

subsection \<open>The last query\<close>

text \<open>The three ways of not being open: no state, no engine, an engine that is not open.\<close>

lemma isOpen_False_iff:
  "isOpen E d w = Inr False \<longleftrightarrow>
     d = 0 \<or> (\<exists>p. privs w d = Some p \<and>
                (d_engine p = 0
                 \<or> (\<exists>e. engines w (d_engine p) = Some e \<and> \<not> engine_isOpen E e)))"
  by (auto simp: isOpen_def split: option.splits)

text \<open>
  Claim C9. For every connection that is not open (null state, absent engine, or an
  engine that is not open), \<^verbatim>\<open>setLastQuery\<close> changes nothing, the stored query included,
  and \<^verbatim>\<open>lastQuery\<close> returns a default-constructed query, not the stored one.
\<close>

theorem not_open_lastQuery:
  assumes "d = 0 \<or> (\<exists>p. privs w d = Some p \<and>
                (d_engine p = 0
                 \<or> (\<exists>e. engines w (d_engine p) = Some e \<and> \<not> engine_isOpen E e)))"
  shows "isOpen E d w = Inr False \<and> setLastQuery E query d w = Inr w
         \<and> lastQuery E d w = Inr QSqlQuery_default"
proof -
  from assms have "isOpen E d w = Inr False"
    by (simp only: isOpen_False_iff)
  then show ?thesis
    by (simp add: setLastQuery_def lastQuery_def)
qed

text \<open>
  At the end of the second run the connection is closed and its slot holds the query
  that was stored while it was open.
\<close>

theorem not_open_lastQuery_witness:
  "privs w_shut 11 =
     Some \<lparr>d_sql_statement = True, d_sql_database = QSqlDatabase_default,
           d_lastQuery = QSqlQuery ''SELECT ALL * FROM User ;'', d_engine = 12\<rparr>
   \<and> engines w_shut 12 = Some \<lparr>se_isOpen = False, se_models = []\<rparr>
   \<and> isOpen sqlite 11 w_shut = Inr False
   \<and> setLastQuery sqlite (QSqlQuery ''DELETE FROM User ;'') 11 w_shut = Inr w_shut
   \<and> lastQuery sqlite 11 w_shut = Inr QSqlQuery_default
   \<and> QSqlQuery_default \<noteq> QSqlQuery ''SELECT ALL * FROM User ;''"
  using not_open_lastQuery [of 11 w_shut sqlite "QSqlQuery ''DELETE FROM User ;''"]
  by (simp add: w_shut_eq sqlite_sel QSqlQuery_default_def)

subsection \<open>Null model metadata\<close>

text \<open>
  Claim C10. \<^verbatim>\<open>addModel\<close> with a null metadata pointer returns false and leaves the
  handle and the whole state as they were: no state is allocated and the mapping is not
  changed. \<^verbatim>\<open>defaultConnection\<close> with a null pointer returns a null connection and
  leaves the state as it was: no warning is written.
\<close>

theorem null_metaInfo:
  "addModel E 0 d w = Inr (False, d, w) \<and> defaultConnection 0 w = Inr (0, w)"
  by (simp add: addModel_def defaultConnection_def)

end
